theory Spec2Isabelle
  imports Complex_Main
begin

section \<open>The host as the script sees it\<close>

text \<open>
  The script \<^verbatim>\<open>subdivided_triangulated_cube_part_1_start.py\<close> runs inside a 3D
  application and does nothing but read and write the application's data and call its
  operators. The data the script reads or assigns through attributes is modelled by
  records whose fields carry the attribute names of the source. Python floats are
  idealised as rationals. References to objects, node trees and data blocks are the
  names under which the host files them.
\<close>

type_synonym vec3 = "rat \<times> rat \<times> rat"
type_synonym rgba = "rat \<times> rat \<times> rat \<times> rat"

datatype pyval = VNone | VBool bool | VNum rat | VStr string | VTuple "pyval list"

record fcurve =
  fc_data_path :: string
  extrapolation :: string

record action =
  fcurves :: "fcurve list"

record anim_data =
  action :: "action option"

record modifier =
  mod_name :: string
  node_group :: "string option"

record obj =
  name :: string
  mode :: string
  hide :: bool
  hide_select :: bool
  hide_viewport :: bool
  select :: bool
  location :: vec3
  scale :: vec3
  animation_data :: "anim_data option"
  modifiers :: "modifier list"

record socket =
  sock_name :: string
  default_value :: rgba

record node =
  node_name :: string
  inputs :: "socket list"
  outputs :: "socket list"

record world_block =
  world_name :: string
  node_tree :: "node list option"

text \<open>
  \<open>orphans\<close> are the data blocks without users: the script never reads them, the
  statements about \<open>purge_orphans\<close> count them. \<open>module_attrs\<close> are the names the
  module \<^verbatim>\<open>bpy\<close> binds.
\<close>

record host_state =
  app_version :: "nat \<times> nat \<times> nat"
  module_attrs :: "string list"
  objects :: "obj list"
  active :: "string option"
  collections :: "string list"
  worlds :: "world_block list"
  scene_world :: "string option"
  frame_start :: int
  frame_end :: int
  frame_current :: int
  render_fps :: int
  clipboard :: string
  orphans :: "string list"

text \<open>
  A socket of a node is referred to by the node's name, its side and its position:
  several sockets of one node may share a name.
\<close>

datatype socket_ref = OutputSocket string nat | InputSocket string nat

text \<open>The operators and methods of the host that the script calls, with their arguments.\<close>

datatype call =
    OrphansPurge "(bool \<times> bool \<times> bool) option"
  | EditmodeToggle
  | HideSet string bool
  | SelectAll string
  | ObjectDelete
  | CollectionsRemove string
  | WorldsRemove string
  | WorldNew
  | SetAttr string string pyval
  | KeyframeInsert string string rat
  | NodesNew string string
  | LinksNew string socket_ref socket_ref
  | PrimitivePlaneAdd vec3
  | PrimitiveCubeAdd vec3
  | PrimitiveUvSphereAdd vec3
  | SelectSet string bool
  | NewGeometryNodesModifier

datatype reply = RNone | RBool bool | RStatus "string list" | RNode node | RLink socket_ref socket_ref

datatype error = AttributeError | KeyError | IndexError | ReferenceError | RuntimeError | TypeError

type_synonym 'a result = "error + 'a"

text \<open>
  What a call does to the host is the host's business and not in the repository: it is
  a parameter \<open>ops\<close> of every function that calls the host. An exception of the host is
  the reply \<open>Inl e\<close>.
\<close>

type_synonym host_ops = "call \<Rightarrow> host_state \<Rightarrow> reply result \<times> host_state"

text \<open>
  The state of a run: the host, the calls made so far in their order, and the part of
  the Python runtime the script touches (standard output, the seed of the module
  \<^verbatim>\<open>random\<close>, the clock that \<^verbatim>\<open>time.time()\<close> reads).
\<close>

record world =
  host :: host_state
  calls :: "call list"
  stdout :: "string list"
  rng_seed :: "rat option"
  clock :: rat

type_synonym 'a prog = "world \<Rightarrow> 'a result \<times> world"
type_synonym 'a pprog = "world \<Rightarrow> ('a result \<times> world) option"

definition ret :: "'a \<Rightarrow> 'a prog" where
  "ret x w = (Inr x, w)"

definition raise :: "error \<Rightarrow> 'a prog" where
  "raise e w = (Inl e, w)"

definition seq :: "'a prog \<Rightarrow> ('a \<Rightarrow> 'b prog) \<Rightarrow> 'b prog" where
  "seq m f w = (case m w of (Inl e, w') \<Rightarrow> (Inl e, w') | (Inr x, w') \<Rightarrow> f x w')"

definition lift :: "'a prog \<Rightarrow> 'a pprog" where
  "lift m w = Some (m w)"

definition pseq :: "'a pprog \<Rightarrow> ('a \<Rightarrow> 'b pprog) \<Rightarrow> 'b pprog" where
  "pseq m f w =
     (case m w of
        None \<Rightarrow> None
      | Some (Inl e, w') \<Rightarrow> Some (Inl e, w')
      | Some (Inr x, w') \<Rightarrow> f x w')"

definition invoke :: "host_ops \<Rightarrow> call \<Rightarrow> reply prog" where
  "invoke ops c w =
     (case ops c (host w) of (r, h') \<Rightarrow> (r, w\<lparr>host := h', calls := calls w @ [c]\<rparr>))"

definition modify_host :: "(host_state \<Rightarrow> host_state) \<Rightarrow> unit prog" where
  "modify_host f w = (Inr (), w\<lparr>host := f (host w)\<rparr>)"

primrec for_each :: "'a list \<Rightarrow> ('a \<Rightarrow> unit prog) \<Rightarrow> unit prog" where
  "for_each [] body = ret ()"
| "for_each (x # xs) body = seq (body x) (\<lambda>_. for_each xs body)"

section \<open>purge_orphans\<close>

text \<open>Python compares tuples lexicographically: \<^verbatim>\<open>bpy.app.version >= (3, 0, 0)\<close>.\<close>

fun version_ge :: "nat \<times> nat \<times> nat \<Rightarrow> nat \<times> nat \<times> nat \<Rightarrow> bool" where
  "version_ge (a, b, c) (x, y, z) =
     (a > x \<or> (a = x \<and> (b > y \<or> (b = y \<and> c \<ge> z))))"

text \<open>
  \<^verbatim>\<open>result.pop()\<close>: an operator returns a set of status strings, here in its iteration
  order; \<open>pop\<close> takes the first and raises KeyError on the empty set.
\<close>

fun pop :: "reply \<Rightarrow> string result" where
  "pop (RStatus []) = Inl KeyError"
| "pop (RStatus (s # _)) = Inr s"
| "pop _ = Inl AttributeError"

partial_function (option) purge_orphans :: "host_ops \<Rightarrow> world \<Rightarrow> (unit result \<times> world) option" where
  "purge_orphans ops w =
     (if version_ge (app_version (host w)) (3, 0, 0) then
        (case invoke ops (OrphansPurge (Some (True, True, True))) w of
           (Inl e, w') \<Rightarrow> Some (Inl e, w')
         | (Inr _, w') \<Rightarrow> Some (Inr (), w'))
      else
        (case invoke ops (OrphansPurge None) w of
           (Inl e, w') \<Rightarrow> Some (Inl e, w')
         | (Inr result, w') \<Rightarrow>
             (case pop result of
                Inl e \<Rightarrow> Some (Inl e, w')
              | Inr s \<Rightarrow>
                  if s \<noteq> ''CANCELLED'' then purge_orphans ops w'
                  else Some (Inr (), w'))))"

declare purge_orphans.simps [code]

definition orphan_count :: "host_state \<Rightarrow> nat" where
  "orphan_count h = length (orphans h)"

section \<open>clean_scene\<close>

definition get :: "(host_state \<Rightarrow> 'a) \<Rightarrow> 'a prog" where
  "get f w = (Inr (f (host w)), w)"

text \<open>
  \<^verbatim>\<open>bpy.context.active_object\<close>: the object the active reference names, None when
  there is no such object.
\<close>

definition context_active_object :: "host_state \<Rightarrow> obj option" where
  "context_active_object h =
     (case active h of None \<Rightarrow> None | Some n \<Rightarrow> find (\<lambda>ob. name ob = n) (objects h))"

text \<open>An attribute assignment through a reference to an object.\<close>

definition update_obj :: "string \<Rightarrow> (obj \<Rightarrow> obj) \<Rightarrow> unit prog" where
  "update_obj n f w =
     (if n \<in> name ` set (objects (host w))
      then modify_host (\<lambda>h. h\<lparr>objects := map (\<lambda>ob. if name ob = n then f ob else ob) (objects h)\<rparr>) w
      else raise ReferenceError w)"

text \<open>\<^verbatim>\<open>bpy.data.collections[name]\<close> and \<^verbatim>\<open>bpy.data.worlds[name]\<close>.\<close>

definition collections_getitem :: "string \<Rightarrow> string prog" where
  "collections_getitem n w =
     (if n \<in> set (collections (host w)) then ret n w else raise KeyError w)"

definition worlds_getitem :: "string \<Rightarrow> world_block prog" where
  "worlds_getitem n w =
     (case find (\<lambda>wd. world_name wd = n) (worlds (host w)) of
        None \<Rightarrow> raise KeyError w
      | Some wd \<Rightarrow> ret wd w)"

definition clean_scene :: "host_ops \<Rightarrow> unit pprog" where
  "clean_scene ops =
     pseq (lift
       (seq (get context_active_object) (\<lambda>ao.
        seq (if (case ao of None \<Rightarrow> False | Some ob \<Rightarrow> mode ob = ''EDIT'')
             then seq (invoke ops EditmodeToggle) (\<lambda>_. ret ())
             else ret ()) (\<lambda>_.
        seq (get (\<lambda>h. map name (objects h))) (\<lambda>objs.
        seq (for_each objs (\<lambda>ob.
               seq (invoke ops (HideSet ob False)) (\<lambda>_.
               seq (update_obj ob (\<lambda>x. x\<lparr>hide_select := False\<rparr>)) (\<lambda>_.
               update_obj ob (\<lambda>x. x\<lparr>hide_viewport := False\<rparr>))))) (\<lambda>_.
        seq (invoke ops (SelectAll ''SELECT'')) (\<lambda>_.
        seq (invoke ops ObjectDelete) (\<lambda>_.
        seq (get collections) (\<lambda>collection_names.
        seq (for_each collection_names (\<lambda>n.
               seq (collections_getitem n) (\<lambda>col.
               seq (invoke ops (CollectionsRemove col)) (\<lambda>_. ret ())))) (\<lambda>_.
        seq (get (\<lambda>h. map world_name (worlds h))) (\<lambda>world_names.
        seq (for_each world_names (\<lambda>n.
               seq (worlds_getitem n) (\<lambda>wd.
               seq (invoke ops (WorldsRemove (world_name wd))) (\<lambda>_. ret ())))) (\<lambda>_.
        seq (invoke ops WorldNew) (\<lambda>_.
        seq (worlds_getitem ''World'') (\<lambda>wd.
        modify_host (\<lambda>h. h\<lparr>scene_world := Some (world_name wd)\<rparr>)))))))))))))))
       (\<lambda>_. purge_orphans ops)"

section \<open>active_object, time_seed\<close>

definition active_object :: "obj option prog" where
  "active_object = get context_active_object"

definition print :: "string \<Rightarrow> unit prog" where
  "print s w = (Inr (), w\<lparr>stdout := stdout w @ [s]\<rparr>)"

definition random_seed :: "rat \<Rightarrow> unit prog" where
  "random_seed s w = (Inr (), w\<lparr>rng_seed := Some s\<rparr>)"

definition time_time :: "rat prog" where
  "time_time w = (Inr (clock w), w)"

text \<open>
  \<open>str\<close> is Python's conversion of a float to a string; the f-string formats the seed
  the same way.
\<close>

definition time_seed :: "(rat \<Rightarrow> string) \<Rightarrow> rat prog" where
  "time_seed str =
     seq time_time (\<lambda>seed.
     seq (print (''seed: '' @ str seed)) (\<lambda>_.
     seq (random_seed seed) (\<lambda>_.
     seq (modify_host (\<lambda>h. h\<lparr>clipboard := str seed\<rparr>)) (\<lambda>_.
     ret seed))))"

section \<open>Keyframe animation\<close>

definition set_fcurve_extrapolation :: "nat \<Rightarrow> string \<Rightarrow> obj \<Rightarrow> obj" where
  "set_fcurve_extrapolation i v ob =
     (case animation_data ob of
        None \<Rightarrow> ob
      | Some ad \<Rightarrow>
          (case action ad of
             None \<Rightarrow> ob
           | Some ac \<Rightarrow>
               ob\<lparr>animation_data := Some (ad\<lparr>action := Some (ac\<lparr>fcurves :=
                  (fcurves ac)[i := (fcurves ac ! i)\<lparr>extrapolation := v\<rparr>]\<rparr>)\<rparr>)\<rparr>))"

definition set_fcurve_extrapolation_to_linear :: "unit prog" where
  "set_fcurve_extrapolation_to_linear =
     seq (get context_active_object) (\<lambda>ao.
       case ao of
         None \<Rightarrow> raise AttributeError
       | Some ob \<Rightarrow>
           (case animation_data ob of
              None \<Rightarrow> raise AttributeError
            | Some ad \<Rightarrow>
                (case action ad of
                   None \<Rightarrow> raise AttributeError
                 | Some ac \<Rightarrow>
                     for_each [0 ..< length (fcurves ac)] (\<lambda>fc.
                       update_obj (name ob) (set_fcurve_extrapolation fc ''LINEAR'')))))"

definition create_data_animation_loop ::
  "host_ops \<Rightarrow> string \<Rightarrow> string \<Rightarrow> pyval \<Rightarrow> pyval \<Rightarrow> rat \<Rightarrow> rat \<Rightarrow> bool \<Rightarrow> unit prog" where
  "create_data_animation_loop ops ob data_path start_value mid_value start_frame loop_length
       linear_extrapolation =
     seq (invoke ops (SetAttr ob data_path start_value)) (\<lambda>_.
     seq (invoke ops (KeyframeInsert ob data_path start_frame)) (\<lambda>_.
     seq (invoke ops (SetAttr ob data_path mid_value)) (\<lambda>_.
     let mid_frame = start_frame + loop_length / 2 in
     seq (invoke ops (KeyframeInsert ob data_path mid_frame)) (\<lambda>_.
     seq (invoke ops (SetAttr ob data_path start_value)) (\<lambda>_.
     let end_frame = start_frame + loop_length in
     seq (invoke ops (KeyframeInsert ob data_path end_frame)) (\<lambda>_.
     if linear_extrapolation then set_fcurve_extrapolation_to_linear else ret ()))))))"

section \<open>Scene set-up\<close>

definition set_background :: "rgba \<Rightarrow> world_block \<Rightarrow> world_block" where
  "set_background c wd =
     (case node_tree wd of
        None \<Rightarrow> wd
      | Some nodes \<Rightarrow>
          wd\<lparr>node_tree := Some (map (\<lambda>nd.
             if node_name nd = ''Background''
             then nd\<lparr>inputs := (inputs nd)[0 := (inputs nd ! 0)\<lparr>default_value := c\<rparr>]\<rparr>
             else nd) nodes)\<rparr>)"

definition set_scene_props :: "int \<Rightarrow> int \<Rightarrow> unit prog" where
  "set_scene_props fps frame_count =
     seq (modify_host (\<lambda>h. h\<lparr>frame_end := frame_count\<rparr>)) (\<lambda>_.
     seq (worlds_getitem ''World'') (\<lambda>wd.
     seq (case node_tree wd of
            None \<Rightarrow> raise AttributeError
          | Some nodes \<Rightarrow>
              (case find (\<lambda>nd. node_name nd = ''Background'') nodes of
                 None \<Rightarrow> ret ()
               | Some nd \<Rightarrow>
                   if inputs nd = [] then raise IndexError
                   else modify_host (\<lambda>h. h\<lparr>worlds := map (\<lambda>x.
                          if world_name x = ''World'' then set_background (0, 0, 0, 1) x else x)
                          (worlds h)\<rparr>))) (\<lambda>_.
     seq (modify_host (\<lambda>h. h\<lparr>render_fps := fps\<rparr>)) (\<lambda>_.
     seq (modify_host (\<lambda>h. h\<lparr>frame_current := 1\<rparr>)) (\<lambda>_.
     modify_host (\<lambda>h. h\<lparr>frame_start := 1\<rparr>))))))"

definition scene_setup :: "(rat \<Rightarrow> string) \<Rightarrow> host_ops \<Rightarrow> unit pprog" where
  "scene_setup str ops =
     (let fps = 30; loop_seconds = 12; frame_count = fps * loop_seconds; seed = (0::int) in
      pseq (lift (if seed \<noteq> 0 then random_seed (of_int seed)
                  else seq (time_seed str) (\<lambda>_. ret ()))) (\<lambda>_.
      pseq (clean_scene ops) (\<lambda>_.
      lift (set_scene_props fps frame_count))))"

section \<open>Nodes, modifiers, meshes\<close>





definition add_geo_nodes_modifier :: "host_ops \<Rightarrow> string \<Rightarrow> string option prog" where
  "add_geo_nodes_modifier ops ob =
     seq (modify_host (\<lambda>h. h\<lparr>active := Some ob\<rparr>)) (\<lambda>_.
     seq (invoke ops (SelectSet ob True)) (\<lambda>_.
     seq (invoke ops NewGeometryNodesModifier) (\<lambda>_.
     seq (get (\<lambda>h. find (\<lambda>x. name x = ob) (objects h))) (\<lambda>found.
       case found of
         None \<Rightarrow> raise ReferenceError
       | Some x \<Rightarrow>
           (case find (\<lambda>m. mod_name m = ''GeometryNodes'') (modifiers x) of
              None \<Rightarrow> raise KeyError
            | Some m \<Rightarrow> ret (node_group m))))))"

definition create_mesh :: "host_ops \<Rightarrow> string \<Rightarrow> vec3 \<Rightarrow> obj option prog" where
  "create_mesh ops mesh_type loc =
     seq (if mesh_type = ''PLANE'' then seq (invoke ops (PrimitivePlaneAdd loc)) (\<lambda>_. ret ())
          else if mesh_type = ''CUBE'' then seq (invoke ops (PrimitiveCubeAdd loc)) (\<lambda>_. ret ())
          else if mesh_type = ''SPHERE'' then
            seq (invoke ops (PrimitiveUvSphereAdd loc)) (\<lambda>_. ret ())
          else ret ()) (\<lambda>_.
     active_object)"

section \<open>move_object, scale_object\<close>

text \<open>
  \<^verbatim>\<open>obj.location += bpy.Vector(v)\<close>: Python reads \<^verbatim>\<open>obj.location\<close>, then evaluates
  the right-hand side, where the lookup of \<^verbatim>\<open>Vector\<close> in the module \<^verbatim>\<open>bpy\<close> comes
  first, and stores last.
\<close>

definition obj_getattr :: "string \<Rightarrow> (obj \<Rightarrow> 'a) \<Rightarrow> 'a prog" where
  "obj_getattr n f w =
     (case find (\<lambda>ob. name ob = n) (objects (host w)) of
        None \<Rightarrow> raise ReferenceError w
      | Some ob \<Rightarrow> ret (f ob) w)"

definition bpy_getattr :: "string \<Rightarrow> unit prog" where
  "bpy_getattr a w =
     (if a \<in> set (module_attrs (host w)) then ret () w else raise AttributeError w)"

fun vec_add :: "vec3 \<Rightarrow> vec3 \<Rightarrow> vec3" where
  "vec_add (a, b, c) (x, y, z) = (a + x, b + y, c + z)"

fun vec_mul :: "vec3 \<Rightarrow> vec3 \<Rightarrow> vec3" where
  "vec_mul (a, b, c) (x, y, z) = (a * x, b * y, c * z)"

definition move_object :: "string \<Rightarrow> vec3 \<Rightarrow> unit prog" where
  "move_object ob translation_vector =
     seq (obj_getattr ob location) (\<lambda>loc.
     seq (bpy_getattr ''Vector'') (\<lambda>_.
     update_obj ob (\<lambda>x. x\<lparr>location := vec_add loc translation_vector\<rparr>)))"

definition scale_object :: "string \<Rightarrow> vec3 \<Rightarrow> unit prog" where
  "scale_object ob scale_factor =
     seq (obj_getattr ob scale) (\<lambda>sc.
     seq (bpy_getattr ''Vector'') (\<lambda>_.
     update_obj ob (\<lambda>x. x\<lparr>scale := vec_mul sc scale_factor\<rparr>)))"

section \<open>The workspace and main\<close>

definition create_centerpiece :: "unit prog" where
  "create_centerpiece = ret ()"

definition main :: "(rat \<Rightarrow> string) \<Rightarrow> host_ops \<Rightarrow> unit pprog" where
  "main str ops =
     pseq (scene_setup str ops) (\<lambda>_.
     lift create_centerpiece)"

section \<open>A reference host\<close>

text \<open>
  A small executable host on which the functions above can be run: it instantiates the
  parameter \<open>ops\<close> wherever a statement about every host is applied to a concrete one.
  A purge pass without the recursive flag removes the first orphan only, a recursive one
  all of them, and a pass that finds no orphan reports CANCELLED.
\<close>

definition selectable :: "obj \<Rightarrow> bool" where
  "selectable x = (\<not> hide x \<and> \<not> hide_select x \<and> \<not> hide_viewport x)"

definition status :: "string \<Rightarrow> reply result" where
  "status s = Inr (RStatus [s])"

definition add_fcurve :: "string \<Rightarrow> obj \<Rightarrow> obj" where
  "add_fcurve p x =
     (let fcs = (case animation_data x of
                   None \<Rightarrow> []
                 | Some ad \<Rightarrow> (case action ad of None \<Rightarrow> [] | Some ac \<Rightarrow> fcurves ac))
      in x\<lparr>animation_data := Some \<lparr>action = Some \<lparr>fcurves =
           (if p \<in> fc_data_path ` set fcs then fcs
            else fcs @ [\<lparr>fc_data_path = p, extrapolation = ''CONSTANT''\<rparr>])\<rparr>\<rparr>\<rparr>)"

fun remove_world :: "string \<Rightarrow> world_block list \<Rightarrow> world_block list" where
  "remove_world n [] = []"
| "remove_world n (x # xs) = (if world_name x = n then xs else x # remove_world n xs)"

definition new_world :: "string \<Rightarrow> world_block" where
  "new_world n =
     \<lparr>world_name = n,
      node_tree = Some
        [\<lparr>node_name = ''World Output'',
          inputs = [\<lparr>sock_name = ''Surface'', default_value = (0, 0, 0, 0)\<rparr>],
          outputs = []\<rparr>,
         \<lparr>node_name = ''Background'',
          inputs = [\<lparr>sock_name = ''Color'', default_value = (1/20, 1/20, 1/20, 1)\<rparr>,
                    \<lparr>sock_name = ''Strength'', default_value = (1, 1, 1, 1)\<rparr>],
          outputs = [\<lparr>sock_name = ''Background'', default_value = (0, 0, 0, 0)\<rparr>]\<rparr>]\<rparr>"

fun reference_host :: "call \<Rightarrow> host_state \<Rightarrow> reply result \<times> host_state" where
  "reference_host (OrphansPurge None) h =
     (if orphans h = [] then (status ''CANCELLED'', h)
      else (status ''FINISHED'', h\<lparr>orphans := tl (orphans h)\<rparr>))"
| "reference_host (OrphansPurge (Some (do_local_ids, do_linked_ids, do_recursive))) h =
     (if orphans h = [] then (status ''CANCELLED'', h)
      else (status ''FINISHED'',
            h\<lparr>orphans := (if do_recursive then [] else tl (orphans h))\<rparr>))"
| "reference_host EditmodeToggle h =
     (case context_active_object h of
        None \<Rightarrow> (Inl RuntimeError, h)
      | Some ob \<Rightarrow>
          (status ''FINISHED'',
           h\<lparr>objects := map (\<lambda>x. if name x = name ob
                                then x\<lparr>mode := (if mode x = ''EDIT'' then ''OBJECT'' else ''EDIT'')\<rparr>
                                else x) (objects h)\<rparr>))"
| "reference_host (HideSet n b) h =
     (if n \<in> name ` set (objects h)
      then (Inr RNone, h\<lparr>objects := map (\<lambda>x. if name x = n then x\<lparr>hide := b\<rparr> else x) (objects h)\<rparr>)
      else (Inl ReferenceError, h))"
| "reference_host (SelectAll a) h =
     (status ''FINISHED'',
      h\<lparr>objects := map (\<lambda>x. if a = ''SELECT''
                           then (if selectable x then x\<lparr>select := True\<rparr> else x)
                           else x\<lparr>select := False\<rparr>) (objects h)\<rparr>)"
| "reference_host ObjectDelete h =
     (status ''FINISHED'', h\<lparr>objects := filter (\<lambda>x. \<not> select x) (objects h)\<rparr>)"
| "reference_host (CollectionsRemove n) h =
     (Inr RNone, h\<lparr>collections := remove1 n (collections h)\<rparr>)"
| "reference_host (WorldsRemove n) h =
     (Inr RNone, h\<lparr>worlds := remove_world n (worlds h)\<rparr>)"
| "reference_host WorldNew h =
     (status ''FINISHED'',
      h\<lparr>worlds := worlds h @
         [new_world (if ''World'' \<in> world_name ` set (worlds h) then ''World.001'' else ''World'')]\<rparr>)"
| "reference_host (SetAttr n p v) h =
     (if n \<in> name ` set (objects h) then (Inr RNone, h) else (Inl ReferenceError, h))"
| "reference_host (KeyframeInsert n p f) h =
     (if n \<in> name ` set (objects h)
      then (Inr (RBool True),
            h\<lparr>objects := map (\<lambda>x. if name x = n then add_fcurve p x else x) (objects h)\<rparr>)
      else (Inl ReferenceError, h))"
| "reference_host (NodesNew t ty) h =
     (Inr (RNode \<lparr>node_name = ty, inputs = [], outputs = []\<rparr>), h)"
| "reference_host (LinksNew t a b) h = (Inr (RLink a b), h)"
| "reference_host (PrimitivePlaneAdd loc) h = (status ''FINISHED'', h)"
| "reference_host (PrimitiveCubeAdd loc) h = (status ''FINISHED'', h)"
| "reference_host (PrimitiveUvSphereAdd loc) h = (status ''FINISHED'', h)"
| "reference_host (SelectSet n b) h = (Inr RNone, h)"
| "reference_host NewGeometryNodesModifier h = (status ''FINISHED'', h)"

definition demo_obj :: "string \<Rightarrow> obj" where
  "demo_obj n =
     \<lparr>name = n, mode = ''OBJECT'', hide = False, hide_select = False, hide_viewport = False,
      select = False, location = (0, 0, 0), scale = (1, 1, 1), animation_data = None,
      modifiers = []\<rparr>"

definition demo_host :: host_state where
  "demo_host =
     \<lparr>app_version = (3, 6, 0),
      module_attrs = [''app'', ''context'', ''data'', ''msgbus'', ''ops'', ''path'', ''props'',
                      ''types'', ''utils''],
      objects = [demo_obj ''Cube'', (demo_obj ''Light'')\<lparr>hide := True\<rparr>, demo_obj ''Camera''],
      active = Some ''Cube'',
      collections = [''Collection''],
      worlds = [new_world ''World''],
      scene_world = Some ''World'',
      frame_start = 1, frame_end = 250, frame_current = 1, render_fps = 24,
      clipboard = [],
      orphans = [''Material'', ''Image'']\<rparr>"

definition demo_world :: world where
  "demo_world = \<lparr>host = demo_host, calls = [], stdout = [], rng_seed = None, clock = 1700000000\<rparr>"

definition demo_world_2_93 :: world where
  "demo_world_2_93 = demo_world\<lparr>host := demo_host\<lparr>app_version := (2, 93, 0)\<rparr>\<rparr>"




section \<open>What the statements about the scene assume of the host\<close>






text \<open>
  \<open>hoare P m Q\<close>: from a state with \<open>P\<close>, whenever \<open>m\<close> returns a value without an
  exception, \<open>Q\<close> holds of the value and the state; \<open>phoare\<close> is the same for a program
  that may not return. \<open>unhidden rem h\<close>: every object of \<open>h\<close> whose name is not in \<open>rem\<close>
  can be selected. \<open>emptied ops h\<close>: no objects, no collections, and one world, named World,
  which a call of \<^verbatim>\<open>bpy.ops.world.new()\<close> created on a host without worlds.
\<close>

definition hoare :: "(world \<Rightarrow> bool) \<Rightarrow> 'a prog \<Rightarrow> ('a \<Rightarrow> world \<Rightarrow> bool) \<Rightarrow> bool" where
  "hoare P m Q = (\<forall>w x w'. P w \<and> m w = (Inr x, w') \<longrightarrow> Q x w')"




section \<open>Laws of sequencing\<close>


lemma seq_ret_left: "seq (ret x) f = f x"
  by (auto simp: seq_def ret_def fun_eq_iff)

lemma pseq_lift_unit: "pseq m (\<lambda>_. lift (ret ())) = (m :: unit pprog)"
  by (auto simp: pseq_def lift_def ret_def fun_eq_iff split: option.splits prod.splits sum.splits)

section \<open>The placeholder\<close>

text \<open>
  C2: \<open>create_centerpiece\<close> is empty. In every state it returns None without an error
  and leaves the whole state as it was: the host, the list of host calls, the output and
  the random seed. So \<open>main\<close> does what \<open>scene_setup\<close> does, in every state and on
  every host.
\<close>

theorem create_centerpiece_placeholder:
  "create_centerpiece w = (Inr (), w) \<and> main str ops w = scene_setup str ops w"
  by (simp add: create_centerpiece_def main_def pseq_lift_unit) (simp add: ret_def)

section \<open>The orphan purge\<close>

lemma purge_orphans_new:
  "version_ge (app_version (host w)) (3, 0, 0) \<Longrightarrow>
   purge_orphans ops w =
     Some (case ops (OrphansPurge (Some (True, True, True))) (host w) of
             (r, h') \<Rightarrow> (map_sum id (\<lambda>_. ()) r,
                         w\<lparr>host := h', calls := calls w @ [OrphansPurge (Some (True, True, True))]\<rparr>))"
  by (subst purge_orphans.simps) (auto simp: invoke_def split: prod.splits sum.splits)

lemma purge_orphans_old:
  "\<not> version_ge (app_version (host w)) (3, 0, 0) \<Longrightarrow>
   ops (OrphansPurge None) (host w) = (Inr r, h') \<Longrightarrow> pop r = Inr s \<Longrightarrow>
   purge_orphans ops w =
     (if s \<noteq> ''CANCELLED''
      then purge_orphans ops (w\<lparr>host := h', calls := calls w @ [OrphansPurge None]\<rparr>)
      else Some (Inr (), w\<lparr>host := h', calls := calls w @ [OrphansPurge None]\<rparr>))"
  by (subst purge_orphans.simps) (auto simp: invoke_def split: prod.splits sum.splits)

lemma purge_orphans_terminates:
  assumes dec: "\<forall>h r h' s. ops (OrphansPurge None) h = (Inr r, h') \<and> pop r = Inr s \<and> s \<noteq> ''CANCELLED''
                  \<longrightarrow> orphan_count h' < orphan_count h"
  shows "\<exists>res. purge_orphans ops w = Some res"
proof (induction "orphan_count (host w)" arbitrary: w rule: less_induct)
  case less
  show ?case
  proof (cases "version_ge (app_version (host w)) (3, 0, 0)")
    case True
    then show ?thesis by (simp add: purge_orphans_new)
  next
    case old: False
    obtain r h' where step: "ops (OrphansPurge None) (host w) = (r, h')"
      by (cases "ops (OrphansPurge None) (host w)")
    show ?thesis
    proof (cases r)
      case (Inl e)
      with old step show ?thesis
        by (subst purge_orphans.simps) (simp add: invoke_def)
    next
      case (Inr rep)
      show ?thesis
      proof (cases "pop rep")
        case (Inl e)
        with old step \<open>r = Inr rep\<close> show ?thesis
          by (subst purge_orphans.simps) (simp add: invoke_def)
      next
        case popped: (Inr s)
        show ?thesis
        proof (cases "s = ''CANCELLED''")
          case True
          with old step \<open>r = Inr rep\<close> popped show ?thesis
            by (simp add: purge_orphans_old)
        next
          case False
          with dec step \<open>r = Inr rep\<close> popped have "orphan_count h' < orphan_count (host w)"
            by blast
          then have "\<exists>res. purge_orphans ops (w\<lparr>host := h', calls := calls w @ [OrphansPurge None]\<rparr>) = Some res"
            using less [of "w\<lparr>host := h', calls := calls w @ [OrphansPurge None]\<rparr>"] by simp
          with old step \<open>r = Inr rep\<close> popped False show ?thesis
            by (simp add: purge_orphans_old)
        qed
      qed
    qed
  qed
qed

lemma reference_host_purge_decreases:
  "reference_host (OrphansPurge None) h = (Inr r, h') \<and> pop r = Inr s \<and> s \<noteq> ''CANCELLED''
     \<longrightarrow> orphan_count h' < orphan_count h"
  by (cases "orphans h") (auto simp: orphan_count_def status_def)

text \<open>
  C4: on a host of version 3.0.0 or later \<open>purge_orphans\<close> makes exactly one purge call,
  with \<open>do_local_ids\<close>, \<open>do_linked_ids\<close> and \<open>do_recursive\<close> all true, and returns.
  On an earlier version it makes a purge call without arguments and, when the call
  returns a status, starts over from the state the call left exactly when that status is
  not CANCELLED. If every purge call that does not report CANCELLED leaves fewer orphan
  data blocks than it found, \<open>purge_orphans\<close> returns from every state.
\<close>

theorem purge_orphans_recursion:
  "(version_ge (app_version (host w)) (3, 0, 0) \<longrightarrow>
      (\<exists>res. purge_orphans ops w =
         Some (res, w\<lparr>host := snd (ops (OrphansPurge (Some (True, True, True))) (host w)),
                      calls := calls w @ [OrphansPurge (Some (True, True, True))]\<rparr>)))
   \<and> (\<not> version_ge (app_version (host w)) (3, 0, 0)
        \<and> ops (OrphansPurge None) (host w) = (Inr r, h') \<and> pop r = Inr s \<longrightarrow>
      purge_orphans ops w =
        (if s \<noteq> ''CANCELLED''
         then purge_orphans ops (w\<lparr>host := h', calls := calls w @ [OrphansPurge None]\<rparr>)
         else Some (Inr (), w\<lparr>host := h', calls := calls w @ [OrphansPurge None]\<rparr>)))
   \<and> ((\<forall>h r h' s. ops (OrphansPurge None) h = (Inr r, h') \<and> pop r = Inr s \<and> s \<noteq> ''CANCELLED''
           \<longrightarrow> orphan_count h' < orphan_count h) \<longrightarrow>
      (\<exists>res. purge_orphans ops w = Some res))"
proof (intro conjI impI)
  assume "version_ge (app_version (host w)) (3, 0, 0)"
  then show "\<exists>res. purge_orphans ops w =
         Some (res, w\<lparr>host := snd (ops (OrphansPurge (Some (True, True, True))) (host w)),
                      calls := calls w @ [OrphansPurge (Some (True, True, True))]\<rparr>)"
    by (simp add: purge_orphans_new split: prod.splits)
next
  assume "\<not> version_ge (app_version (host w)) (3, 0, 0)
        \<and> ops (OrphansPurge None) (host w) = (Inr r, h') \<and> pop r = Inr s"
  then show "purge_orphans ops w =
        (if s \<noteq> ''CANCELLED''
         then purge_orphans ops (w\<lparr>host := h', calls := calls w @ [OrphansPurge None]\<rparr>)
         else Some (Inr (), w\<lparr>host := h', calls := calls w @ [OrphansPurge None]\<rparr>))"
    using purge_orphans_old [of w ops r h' s] by blast
next
  assume "\<forall>h r h' s. ops (OrphansPurge None) h = (Inr r, h') \<and> pop r = Inr s \<and> s \<noteq> ''CANCELLED''
           \<longrightarrow> orphan_count h' < orphan_count h"
  then show "\<exists>res. purge_orphans ops w = Some res"
    by (rule purge_orphans_terminates)
qed


theorem purge_orphans_recursion_witness:
  "version_ge (app_version (host demo_world)) (3, 0, 0) \<and>
   map_option (calls \<circ> snd) (purge_orphans reference_host demo_world)
     = Some [OrphansPurge (Some (True, True, True))] \<and>
   \<not> version_ge (app_version (host demo_world_2_93)) (3, 0, 0) \<and>
   purge_orphans reference_host demo_world_2_93
     = purge_orphans reference_host
         (demo_world_2_93\<lparr>host := (host demo_world_2_93)\<lparr>orphans := [''Image'']\<rparr>,
                           calls := [OrphansPurge None]\<rparr>) \<and>
   (\<exists>res. purge_orphans reference_host demo_world_2_93 = Some res)"
proof -
  have new: "version_ge (app_version (host demo_world)) (3, 0, 0)"
    by (simp add: demo_world_def demo_host_def)
  have old: "\<not> version_ge (app_version (host demo_world_2_93)) (3, 0, 0)"
    by (simp add: demo_world_2_93_def demo_world_def demo_host_def)
  have step: "reference_host (OrphansPurge None) (host demo_world_2_93)
                = (Inr (RStatus [''FINISHED'']), (host demo_world_2_93)\<lparr>orphans := [''Image'']\<rparr>)"
    by (simp add: demo_world_2_93_def demo_world_def demo_host_def status_def)
  have dec: "\<forall>h r h' s. reference_host (OrphansPurge None) h = (Inr r, h') \<and> pop r = Inr s
               \<and> s \<noteq> ''CANCELLED'' \<longrightarrow> orphan_count h' < orphan_count h"
    using reference_host_purge_decreases by blast
  have c0: "calls demo_world_2_93 = []" "calls demo_world = []"
    by (simp_all add: demo_world_2_93_def demo_world_def)
  note inst = purge_orphans_recursion [where ops = reference_host]
  from inst [where w = demo_world] new
  have a: "map_option (calls \<circ> snd) (purge_orphans reference_host demo_world)
             = Some [OrphansPurge (Some (True, True, True))]"
    by (auto simp: c0)
  from inst [where w = demo_world_2_93 and r = "RStatus [''FINISHED'']"
      and h' = "(host demo_world_2_93)\<lparr>orphans := [''Image'']\<rparr>" and s = "''FINISHED''"] old step
  have b: "purge_orphans reference_host demo_world_2_93
     = purge_orphans reference_host
         (demo_world_2_93\<lparr>host := (host demo_world_2_93)\<lparr>orphans := [''Image'']\<rparr>,
                           calls := [OrphansPurge None]\<rparr>)"
    by (simp add: c0)
  from inst [where w = demo_world_2_93] dec
  have c: "\<exists>res. purge_orphans reference_host demo_world_2_93 = Some res"
    by blast
  from new a old b c show ?thesis by blast
qed

section \<open>Creating nodes and links\<close>




section \<open>Moving and scaling\<close>

text \<open>
  C8: when the module \<^verbatim>\<open>bpy\<close> binds no name \<^verbatim>\<open>Vector\<close>, \<open>move_object\<close> and
  \<open>scale_object\<close> raise for every object and every vector and leave the whole state as
  it was, the object's location and scale included; for an object of the host the
  exception is AttributeError.
\<close>

theorem move_scale_object_raise:
  "''Vector'' \<notin> set (module_attrs (host w)) \<Longrightarrow>
     (\<exists>e. move_object ob translation_vector w = (Inl e, w))
   \<and> (\<exists>e. scale_object ob scale_factor w = (Inl e, w))
   \<and> (ob \<in> name ` set (objects (host w)) \<longrightarrow>
        move_object ob translation_vector w = (Inl AttributeError, w)
      \<and> scale_object ob scale_factor w = (Inl AttributeError, w))"
  by (auto simp: move_object_def scale_object_def seq_def obj_getattr_def bpy_getattr_def
        raise_def ret_def find_None_iff split: option.splits)

theorem move_scale_object_raise_witness:
  "move_object ''Cube'' (1, 0, 0) demo_world = (Inl AttributeError, demo_world)
   \<and> scale_object ''Cube'' (2, 2, 2) demo_world = (Inl AttributeError, demo_world)"
proof -
  have a: "''Vector'' \<notin> set (module_attrs (host demo_world))"
    by (simp add: demo_world_def demo_host_def)
  have b: "''Cube'' \<in> name ` set (objects (host demo_world))"
    by (simp add: demo_world_def demo_host_def demo_obj_def)
  from move_scale_object_raise [OF a, of "''Cube''" "(1, 0, 0)" "(2, 2, 2)"] b
  show ?thesis by blast
qed

section \<open>Creating meshes\<close>

text \<open>
  C9: for a \<open>mesh_type\<close> other than PLANE, CUBE and SPHERE, \<open>create_mesh\<close> makes no host
  call, raises nothing, returns the object that is active (None when there is none), and
  leaves the state, the objects of the scene included, as it was.
\<close>

theorem create_mesh_unknown_type:
  "mesh_type \<notin> {''PLANE'', ''CUBE'', ''SPHERE''} \<Longrightarrow>
   create_mesh ops mesh_type loc w = (Inr (context_active_object (host w)), w)"
  by (simp add: create_mesh_def seq_ret_left active_object_def get_def)

theorem create_mesh_unknown_type_witness:
  "create_mesh reference_host ''CONE'' (0, 0, 0) demo_world
     = (Inr (Some (demo_obj ''Cube'')), demo_world)"
proof -
  have a: "''CONE'' \<notin> {''PLANE'', ''CUBE'', ''SPHERE''}" by simp
  have b: "context_active_object (host demo_world) = Some (demo_obj ''Cube'')"
    by (simp add: context_active_object_def demo_world_def demo_host_def demo_obj_def)
  from create_mesh_unknown_type [OF a, of reference_host "(0, 0, 0)" demo_world] b
  show ?thesis by simp
qed

section \<open>Seeding\<close>

lemma time_seed_effect:
  "time_seed str w =
     (Inr (clock w),
      w\<lparr>stdout := stdout w @ [''seed: '' @ str (clock w)],
        rng_seed := Some (clock w),
        host := (host w)\<lparr>clipboard := str (clock w)\<rparr>\<rparr>)"
  by (simp add: time_seed_def seq_def time_time_def print_def random_seed_def modify_host_def
        ret_def)

text \<open>
  C10: \<open>scene_setup\<close> never takes the branch with the fixed seed: in every state it runs
  \<open>time_seed\<close>, then \<open>clean_scene\<close>, then \<open>set_scene_props\<close> with 30 frames per second
  and 360 frames. \<open>time_seed\<close> never fails: it reads the clock, prints the seed, seeds the
  random number generator with it and overwrites the clipboard with its string form.
\<close>

theorem scene_setup_time_seed:
  "scene_setup str ops w =
     pseq (lift (time_seed str)) (\<lambda>_.
     pseq (clean_scene ops) (\<lambda>_.
     lift (set_scene_props 30 360))) w
   \<and> time_seed str w =
       (Inr (clock w),
        w\<lparr>stdout := stdout w @ [''seed: '' @ str (clock w)],
          rng_seed := Some (clock w),
          host := (host w)\<lparr>clipboard := str (clock w)\<rparr>\<rparr>)"
  apply (rule conjI)
   apply (simp add: scene_setup_def Let_def pseq_def lift_def seq_def ret_def split: prod.splits sum.splits)
  apply (rule time_seed_effect)
  done

section \<open>What the purge leaves\<close>

lemma purge_orphans_rule:
  assumes run: "purge_orphans ops w = Some y"
    and new_raise: "\<And>v e v'. version_ge (app_version (host v)) (3, 0, 0) \<Longrightarrow>
                invoke ops (OrphansPurge (Some (True, True, True))) v = (Inl e, v') \<Longrightarrow>
                Q v (Inl e, v')"
    and new: "\<And>v r v'. version_ge (app_version (host v)) (3, 0, 0) \<Longrightarrow>
                invoke ops (OrphansPurge (Some (True, True, True))) v = (Inr r, v') \<Longrightarrow>
                Q v (Inr (), v')"
    and old_raise: "\<And>v e v'. \<not> version_ge (app_version (host v)) (3, 0, 0) \<Longrightarrow>
                invoke ops (OrphansPurge None) v = (Inl e, v') \<Longrightarrow> Q v (Inl e, v')"
    and old_pop: "\<And>v r e v'. \<not> version_ge (app_version (host v)) (3, 0, 0) \<Longrightarrow>
                invoke ops (OrphansPurge None) v = (Inr r, v') \<Longrightarrow> pop r = Inl e \<Longrightarrow>
                Q v (Inl e, v')"
    and old_stop: "\<And>v r v'. \<not> version_ge (app_version (host v)) (3, 0, 0) \<Longrightarrow>
                invoke ops (OrphansPurge None) v = (Inr r, v') \<Longrightarrow>
                pop r = Inr ''CANCELLED'' \<Longrightarrow> Q v (Inr (), v')"
    and old_again: "\<And>v r s v' z. \<not> version_ge (app_version (host v)) (3, 0, 0) \<Longrightarrow>
                invoke ops (OrphansPurge None) v = (Inr r, v') \<Longrightarrow>
                pop r = Inr s \<Longrightarrow> s \<noteq> ''CANCELLED'' \<Longrightarrow> Q v' z \<Longrightarrow> Q v z"
  shows "Q w y"
proof -
  have "ops = ops \<longrightarrow> Q w y"
    apply (rule purge_orphans.raw_induct [where P = "\<lambda>p v z. p = ops \<longrightarrow> Q v z", OF _ run])
    apply (rule impI)
    apply (simp split: if_splits prod.splits sum.splits)
    apply (blast intro: new_raise new old_raise old_pop old_stop old_again)+
    done
  then show ?thesis by simp
qed

lemma purge_orphans_no_orphans:
  assumes recur: "\<forall>h r h'. ops (OrphansPurge (Some (True, True, True))) h = (Inr r, h')
                    \<longrightarrow> orphan_count h' = 0"
    and canc: "\<forall>h r h'. ops (OrphansPurge None) h = (Inr r, h') \<and> pop r = Inr ''CANCELLED''
                    \<longrightarrow> orphan_count h' = 0"
    and run: "purge_orphans ops w = Some (Inr (), w')"
  shows "orphan_count (host w') = 0"
proof -
  let ?Q = "\<lambda>(v :: world) (y :: unit result \<times> world).
              case y of (Inl e, v') \<Rightarrow> True | (Inr u, v') \<Rightarrow> orphan_count (host v') = 0"
  have "?Q w (Inr (), w')"
  proof (rule purge_orphans_rule [where ops = ops and Q = ?Q, OF run])
    fix v r v'
    assume "invoke ops (OrphansPurge (Some (True, True, True))) v = (Inr r, v')"
    with recur show "?Q v (Inr (), v')"
      by (auto simp: invoke_def split: prod.splits)
  next
    fix v r v'
    assume "invoke ops (OrphansPurge None) v = (Inr r, v')" "pop r = Inr ''CANCELLED''"
    with canc show "?Q v (Inr (), v')"
      by (auto simp: invoke_def split: prod.splits)
  qed simp_all
  then show ?thesis by simp
qed

lemma reference_host_recursive_purge:
  "reference_host (OrphansPurge (Some (True, True, True))) h = (Inr r, h') \<longrightarrow> orphan_count h' = 0"
  by (auto simp: orphan_count_def status_def)

lemma reference_host_cancelled:
  "reference_host (OrphansPurge None) h = (Inr r, h') \<and> pop r = Inr ''CANCELLED''
     \<longrightarrow> orphan_count h' = 0"
  by (auto simp: orphan_count_def status_def split: if_splits)

text \<open>
  C5: let the host be such that a purge with \<open>do_recursive\<close> leaves no orphan data
  block, and that a purge without arguments reports CANCELLED only when none is left.
  Then from every state, whenever \<open>purge_orphans\<close> returns without an exception, no
  orphan data block remains.
\<close>

theorem purge_orphans_postcondition:
  "(\<forall>h r h'. ops (OrphansPurge (Some (True, True, True))) h = (Inr r, h')
       \<longrightarrow> orphan_count h' = 0) \<Longrightarrow>
   (\<forall>h r h'. ops (OrphansPurge None) h = (Inr r, h') \<and> pop r = Inr ''CANCELLED''
       \<longrightarrow> orphan_count h' = 0) \<Longrightarrow>
   purge_orphans ops w = Some (Inr (), w') \<Longrightarrow>
   orphan_count (host w') = 0"
  by (rule purge_orphans_no_orphans)

lemma demo_purge_new:
  "purge_orphans reference_host demo_world
     = Some (Inr (), demo_world\<lparr>host := demo_host\<lparr>orphans := []\<rparr>,
                                  calls := [OrphansPurge (Some (True, True, True))]\<rparr>)"
  by (simp add: purge_orphans_new demo_world_def demo_host_def status_def)

lemma demo_purge_old:
  "purge_orphans reference_host demo_world_2_93
     = Some (Inr (), demo_world_2_93\<lparr>host := (host demo_world_2_93)\<lparr>orphans := []\<rparr>,
                                       calls := [OrphansPurge None, OrphansPurge None, OrphansPurge None]\<rparr>)"
  apply (simp add: demo_world_2_93_def demo_world_def demo_host_def)
  apply (subst purge_orphans.simps, simp add: invoke_def status_def)+
  done

theorem purge_orphans_postcondition_witness:
  "purge_orphans reference_host demo_world_2_93
     = Some (Inr (), demo_world_2_93\<lparr>host := (host demo_world_2_93)\<lparr>orphans := []\<rparr>,
                                       calls := [OrphansPurge None, OrphansPurge None, OrphansPurge None]\<rparr>)
   \<and> orphan_count (host (demo_world_2_93\<lparr>host := (host demo_world_2_93)\<lparr>orphans := []\<rparr>,
                                       calls := [OrphansPurge None, OrphansPurge None, OrphansPurge None]\<rparr>)) = 0
   \<and> purge_orphans reference_host demo_world
     = Some (Inr (), demo_world\<lparr>host := demo_host\<lparr>orphans := []\<rparr>,
                                  calls := [OrphansPurge (Some (True, True, True))]\<rparr>)
   \<and> orphan_count (host (demo_world\<lparr>host := demo_host\<lparr>orphans := []\<rparr>,
                                  calls := [OrphansPurge (Some (True, True, True))]\<rparr>)) = 0"
proof -
  have a: "\<forall>h r h'. reference_host (OrphansPurge (Some (True, True, True))) h = (Inr r, h')
             \<longrightarrow> orphan_count h' = 0"
    using reference_host_recursive_purge by blast
  have b: "\<forall>h r h'. reference_host (OrphansPurge None) h = (Inr r, h') \<and> pop r = Inr ''CANCELLED''
             \<longrightarrow> orphan_count h' = 0"
    using reference_host_cancelled by blast
  from purge_orphans_postcondition [OF a b demo_purge_old]
    purge_orphans_postcondition [OF a b demo_purge_new] demo_purge_old demo_purge_new
  show ?thesis by blast
qed

section \<open>The keyframe loop\<close>

lemma seq_invoke_Inr:
  assumes "seq (invoke ops c) f w = (Inr r, w')"
  obtains rep h1 where "ops c (host w) = (Inr rep, h1)"
    and "f rep (w\<lparr>host := h1, calls := calls w @ [c]\<rparr>) = (Inr r, w')"
  using assms by (auto simp: seq_def invoke_def split: prod.splits sum.splits)

lemma name_set_fcurve_extrapolation [simp]: "name (set_fcurve_extrapolation i v x) = name x"
  by (simp add: set_fcurve_extrapolation_def split: option.splits)

lemma name_fold_set_fcurve_extrapolation [simp]:
  "name (fold (\<lambda>i. set_fcurve_extrapolation i v) ks x) = name x"
  by (induction ks arbitrary: x) simp_all

lemma update_obj_present:
  "n \<in> name ` set (objects (host w)) \<Longrightarrow>
   update_obj n f w =
     (Inr (), w\<lparr>host := (host w)\<lparr>objects :=
        map (\<lambda>x. if name x = n then f x else x) (objects (host w))\<rparr>\<rparr>)"
  by (simp add: update_obj_def modify_host_def)

lemma for_each_update_obj:
  assumes "n \<in> name ` set (objects (host w))" and "\<And>i x. name (g i x) = name x"
  shows "for_each ks (\<lambda>i. update_obj n (g i)) w =
     (Inr (), w\<lparr>host := (host w)\<lparr>objects :=
        map (\<lambda>x. if name x = n then fold g ks x else x) (objects (host w))\<rparr>\<rparr>)"
  using assms(1)
proof (induction ks arbitrary: w)
  case Nil
  then show ?case by (simp add: ret_def map_idI)
next
  case (Cons k ks)
  let ?w1 = "w\<lparr>host := (host w)\<lparr>objects :=
        map (\<lambda>x. if name x = n then g k x else x) (objects (host w))\<rparr>\<rparr>"
  have keep: "name (if name x = n then g k x else x) = name x" for x
    by (simp add: assms(2))
  have "map name (objects (host ?w1)) = map name (objects (host w))"
    by (simp add: comp_def keep)
  then have "set (map name (objects (host ?w1))) = set (map name (objects (host w)))"
    by (rule arg_cong)
  with Cons.prems have present: "n \<in> name ` set (objects (host ?w1))"
    by (simp only: set_map)
  have "for_each (k # ks) (\<lambda>i. update_obj n (g i)) w = for_each ks (\<lambda>i. update_obj n (g i)) ?w1"
    using Cons.prems by (simp add: seq_def update_obj_present)
  also have "\<dots> = (Inr (), ?w1\<lparr>host := (host ?w1)\<lparr>objects :=
        map (\<lambda>x. if name x = n then fold g ks x else x) (objects (host ?w1))\<rparr>\<rparr>)"
    by (rule Cons.IH [OF present])
  also have "\<dots> = (Inr (), w\<lparr>host := (host w)\<lparr>objects :=
        map (\<lambda>x. if name x = n then fold g (k # ks) x else x) (objects (host w))\<rparr>\<rparr>)"
  proof -
    have "(\<lambda>x. if name (if name x = n then g k x else x) = n
                then fold g ks (if name x = n then g k x else x)
                else (if name x = n then g k x else x))
          = (\<lambda>x. if name x = n then fold g (k # ks) x else x)"
      by (auto simp: fun_eq_iff assms(2))
    then show ?thesis by (simp add: comp_def)
  qed
  finally show ?case .
qed

lemma find_map_update:
  assumes "\<And>x. name (F x) = name x"
  shows "find (\<lambda>x. name x = n) (map (\<lambda>x. if name x = n then F x else x) xs)
           = map_option F (find (\<lambda>x. name x = n) xs)"
  by (induction xs) (simp_all add: assms)

lemma fold_set_fcurve_extrapolation:
  assumes "animation_data x = Some ad" and "action ad = Some ac" and "k \<le> length (fcurves ac)"
  shows "\<exists>ad' ac'. animation_data (fold (\<lambda>i. set_fcurve_extrapolation i v) [0 ..< k] x) = Some ad'
            \<and> action ad' = Some ac' \<and> length (fcurves ac') = length (fcurves ac)
            \<and> (\<forall>j < k. extrapolation (fcurves ac' ! j) = v)"
  using assms(3)
proof (induction k)
  case 0
  with assms(1,2) show ?case by simp
next
  case (Suc k)
  then obtain ad' ac' where
    IH: "animation_data (fold (\<lambda>i. set_fcurve_extrapolation i v) [0 ..< k] x) = Some ad'"
      "action ad' = Some ac'" "length (fcurves ac') = length (fcurves ac)"
      "\<forall>j < k. extrapolation (fcurves ac' ! j) = v"
    by auto
  define y where "y = fold (\<lambda>i. set_fcurve_extrapolation i v) [0 ..< k] x"
  have "fold (\<lambda>i. set_fcurve_extrapolation i v) [0 ..< Suc k] x = set_fcurve_extrapolation k v y"
    by (simp add: y_def)
  moreover from Suc.prems IH [folded y_def]
  have "\<exists>ad'' ac''. animation_data (set_fcurve_extrapolation k v y) = Some ad''
            \<and> action ad'' = Some ac'' \<and> length (fcurves ac'') = length (fcurves ac)
            \<and> (\<forall>j < Suc k. extrapolation (fcurves ac'' ! j) = v)"
    by (auto simp: set_fcurve_extrapolation_def nth_list_update less_Suc_eq)
  ultimately show ?case by simp
qed

lemma set_fcurve_extrapolation_to_linear_Inr:
  assumes "set_fcurve_extrapolation_to_linear w = (Inr r, w')"
  shows "calls w' = calls w
     \<and> (\<exists>a ad ac. context_active_object (host w') = Some a \<and> animation_data a = Some ad
           \<and> action ad = Some ac \<and> (\<forall>fc \<in> set (fcurves ac). extrapolation fc = ''LINEAR''))"
proof -
  from assms obtain a ad ac where a: "context_active_object (host w) = Some a"
    and ad: "animation_data a = Some ad" and ac: "action ad = Some ac"
    and loop: "for_each [0 ..< length (fcurves ac)]
                 (\<lambda>fc. update_obj (name a) (set_fcurve_extrapolation fc ''LINEAR'')) w = (Inr r, w')"
    by (auto simp: set_fcurve_extrapolation_to_linear_def seq_def get_def raise_def
          split: option.splits)
  from a obtain n where n: "active (host w) = Some n"
    and found: "find (\<lambda>x. name x = n) (objects (host w)) = Some a"
    by (auto simp: context_active_object_def split: option.splits)
  from found have na: "name a = n" and mem: "a \<in> set (objects (host w))"
    by (auto simp: find_Some_iff)
  then have present: "name a \<in> name ` set (objects (host w))" by blast
  let ?F = "fold (\<lambda>i. set_fcurve_extrapolation i ''LINEAR'') [0 ..< length (fcurves ac)]"
  from loop for_each_update_obj [OF present, of "\<lambda>i. set_fcurve_extrapolation i ''LINEAR''"]
  have w': "w' = w\<lparr>host := (host w)\<lparr>objects :=
        map (\<lambda>x. if name x = name a then ?F x else x) (objects (host w))\<rparr>\<rparr>"
    by simp
  have "context_active_object (host w') = Some (?F a)"
    using n found na by (simp add: w' context_active_object_def find_map_update)
  moreover
  from fold_set_fcurve_extrapolation [OF ad ac order_refl, of "''LINEAR''"]
  obtain ad' ac' where "animation_data (?F a) = Some ad'" "action ad' = Some ac'"
    "length (fcurves ac') = length (fcurves ac)"
    "\<forall>j < length (fcurves ac). extrapolation (fcurves ac' ! j) = ''LINEAR''"
    by blast
  then have "animation_data (?F a) = Some ad' \<and> action ad' = Some ac'
     \<and> (\<forall>fc \<in> set (fcurves ac'). extrapolation fc = ''LINEAR'')"
    by (auto simp: in_set_conv_nth)
  ultimately show ?thesis by (auto simp: w')
qed

text \<open>
  C3: whenever \<open>create_data_animation_loop\<close> returns, it has made exactly six host calls
  on the given object and data path, in this order: the property is set to
  \<open>start_value\<close> and a keyframe inserted at \<open>start_frame\<close>, set to \<open>mid_value\<close> and a
  keyframe inserted at \<open>start_frame + loop_length / 2\<close>, set to \<open>start_value\<close> again and
  a keyframe inserted at \<open>start_frame + loop_length\<close>. So exactly three keyframes are
  inserted and the first and the last carry the same value. With
  \<open>linear_extrapolation\<close>, every f-curve of the action of the active object then has the
  extrapolation LINEAR.
\<close>

theorem create_data_animation_loop_keyframes:
  "create_data_animation_loop ops ob data_path start_value mid_value start_frame loop_length
     linear_extrapolation w = (Inr r, w') \<Longrightarrow>
   calls w' = calls w @
     [SetAttr ob data_path start_value, KeyframeInsert ob data_path start_frame,
      SetAttr ob data_path mid_value, KeyframeInsert ob data_path (start_frame + loop_length / 2),
      SetAttr ob data_path start_value, KeyframeInsert ob data_path (start_frame + loop_length)]
   \<and> (linear_extrapolation \<longrightarrow>
        (\<exists>a ad ac. context_active_object (host w') = Some a \<and> animation_data a = Some ad
           \<and> action ad = Some ac \<and> (\<forall>fc \<in> set (fcurves ac). extrapolation fc = ''LINEAR'')))"
proof -
  assume run: "create_data_animation_loop ops ob data_path start_value mid_value start_frame
     loop_length linear_extrapolation w = (Inr r, w')"
  let ?cs = "[SetAttr ob data_path start_value, KeyframeInsert ob data_path start_frame,
      SetAttr ob data_path mid_value, KeyframeInsert ob data_path (start_frame + loop_length / 2),
      SetAttr ob data_path start_value, KeyframeInsert ob data_path (start_frame + loop_length)]"
  let ?c1 = "SetAttr ob data_path start_value"
  let ?c2 = "KeyframeInsert ob data_path start_frame"
  let ?c3 = "SetAttr ob data_path mid_value"
  let ?c4 = "KeyframeInsert ob data_path (start_frame + loop_length / 2)"
  let ?c6 = "KeyframeInsert ob data_path (start_frame + loop_length)"
  let ?k6 = "\<lambda>_::reply. if linear_extrapolation then set_fcurve_extrapolation_to_linear else ret ()"
  let ?k5 = "\<lambda>_::reply. seq (invoke ops ?c6) ?k6"
  let ?k4 = "\<lambda>_::reply. seq (invoke ops ?c1) ?k5"
  let ?k3 = "\<lambda>_::reply. seq (invoke ops ?c4) ?k4"
  let ?k2 = "\<lambda>_::reply. seq (invoke ops ?c3) ?k3"
  let ?k1 = "\<lambda>_::reply. seq (invoke ops ?c2) ?k2"
  from run have r0: "seq (invoke ops ?c1) ?k1 w = (Inr r, w')"
    by (simp add: create_data_animation_loop_def Let_def)
  from r0 obtain h1 where r1: "seq (invoke ops ?c2) ?k2 (w\<lparr>host := h1, calls := calls w @ [?c1]\<rparr>) = (Inr r, w')"
    by (rule seq_invoke_Inr)
  from r1 obtain h2 where r2: "seq (invoke ops ?c3) ?k3 (w\<lparr>host := h2, calls := calls w @ [?c1, ?c2]\<rparr>) = (Inr r, w')"
    by (rule seq_invoke_Inr) simp
  from r2 obtain h3 where r3: "seq (invoke ops ?c4) ?k4 (w\<lparr>host := h3, calls := calls w @ [?c1, ?c2, ?c3]\<rparr>) = (Inr r, w')"
    by (rule seq_invoke_Inr) simp
  from r3 obtain h4 where r4: "seq (invoke ops ?c1) ?k5 (w\<lparr>host := h4, calls := calls w @ [?c1, ?c2, ?c3, ?c4]\<rparr>) = (Inr r, w')"
    by (rule seq_invoke_Inr) simp
  from r4 obtain h5 where r5: "seq (invoke ops ?c6) ?k6 (w\<lparr>host := h5, calls := calls w @ [?c1, ?c2, ?c3, ?c4, ?c1]\<rparr>) = (Inr r, w')"
    by (rule seq_invoke_Inr) simp
  from r5 obtain h6 where
    last: "(if linear_extrapolation then set_fcurve_extrapolation_to_linear else ret ())
             (w\<lparr>host := h6, calls := calls w @ ?cs\<rparr>) = (Inr r, w')"
    by (rule seq_invoke_Inr) simp
  show ?thesis
  proof (cases linear_extrapolation)
    case True
    with last set_fcurve_extrapolation_to_linear_Inr
      [of "w\<lparr>host := h6, calls := calls w @ ?cs\<rparr>" r w']
    show ?thesis by simp
  next
    case False
    with last show ?thesis by (auto simp: ret_def)
  qed
qed

lemma demo_animation_loop_returns:
  "fst (create_data_animation_loop reference_host ''Cube'' ''location''
          (VTuple [VNum 0, VNum 0, VNum 0]) (VTuple [VNum 0, VNum 0, VNum 2]) 1 5 True demo_world)
     = Inr ()"
  by code_simp

theorem create_data_animation_loop_keyframes_witness:
  "fst (create_data_animation_loop reference_host ''Cube'' ''location''
          (VTuple [VNum 0, VNum 0, VNum 0]) (VTuple [VNum 0, VNum 0, VNum 2]) 1 5 True demo_world)
     = Inr ()
   \<and> calls (snd (create_data_animation_loop reference_host ''Cube'' ''location''
          (VTuple [VNum 0, VNum 0, VNum 0]) (VTuple [VNum 0, VNum 0, VNum 2]) 1 5 True demo_world))
     = [SetAttr ''Cube'' ''location'' (VTuple [VNum 0, VNum 0, VNum 0]),
        KeyframeInsert ''Cube'' ''location'' 1,
        SetAttr ''Cube'' ''location'' (VTuple [VNum 0, VNum 0, VNum 2]),
        KeyframeInsert ''Cube'' ''location'' (7 / 2),
        SetAttr ''Cube'' ''location'' (VTuple [VNum 0, VNum 0, VNum 0]),
        KeyframeInsert ''Cube'' ''location'' 6]
   \<and> (\<exists>a ad ac. context_active_object (host (snd (create_data_animation_loop reference_host
          ''Cube'' ''location'' (VTuple [VNum 0, VNum 0, VNum 0])
          (VTuple [VNum 0, VNum 0, VNum 2]) 1 5 True demo_world))) = Some a
        \<and> animation_data a = Some ad \<and> action ad = Some ac
        \<and> list_all (\<lambda>fc. extrapolation fc = ''LINEAR'') (fcurves ac))"
proof -
  let ?run = "create_data_animation_loop reference_host ''Cube'' ''location''
          (VTuple [VNum 0, VNum 0, VNum 0]) (VTuple [VNum 0, VNum 0, VNum 2]) 1 5 True demo_world"
  have run: "?run = (Inr (), snd ?run)"
    using demo_animation_loop_returns by (simp add: prod_eq_iff)
  have c0: "calls demo_world = []" by (simp add: demo_world_def)
  from create_data_animation_loop_keyframes [OF run] demo_animation_loop_returns c0
  show ?thesis by (simp add: list_all_iff)
qed

section \<open>Cleaning the scene\<close>






lemma hoare_get: "hoare P (get f) (\<lambda>x w. P w \<and> x = f (host w))"
  by (auto simp: hoare_def get_def)


lemma hoare_pre: "hoare P' m Q \<Longrightarrow> (\<And>w. P w \<Longrightarrow> P' w) \<Longrightarrow> hoare P m Q"
  unfolding hoare_def by blast























section \<open>What main does\<close>




























end
